theory Spec2Isabelle
  imports Main "HOL-Library.Sublist"
begin

section \<open>Thinkers Shelf cart logic (cart.js)\<close>

text \<open>
  A shallow embedding of \<^verbatim>\<open>src/cart.js\<close>. The script keeps one array of line items under
  one key of the browser's \<^verbatim>\<open>localStorage\<close>, as JSON text. Every operation reads the array
  with \<^verbatim>\<open>getCart\<close>, changes it in memory and writes it back with \<^verbatim>\<open>saveCart\<close>.

  The state of the model is the content of \<^verbatim>\<open>localStorage\<close> (a map from keys to strings).
  \<^verbatim>\<open>JSON.parse\<close> and \<^verbatim>\<open>JSON.stringify\<close> belong to the browser, not to the script, so
  they are parameters of the model (the record \<open>json_api\<close>); \<^verbatim>\<open>JSON.parse\<close> either throws
  or returns the decoded array of items. \<^verbatim>\<open>localStorage.getItem\<close> and \<^verbatim>\<open>setItem\<close> are
  taken to succeed: the script has no handler for a failing write. The page's address
  \<^verbatim>\<open>window.location.pathname\<close> is a parameter of the functions that read it. What the script
  writes into the DOM (badge texts, rendered rows, totals) never flows back into the stored
  cart; the rendering functions are modelled by the values they compute.
\<close>

subsection \<open>Data model\<close>

text \<open>
  The product descriptor built by the click handler in \<^verbatim>\<open>init\<close>:
  \<^verbatim>\<open>{ id, title, price: Number(...), image }\<close>. A cart item is the descriptor spread into a
  new object with a \<^verbatim>\<open>quantity\<close>. The fields \<^verbatim>\<open>id\<close> and \<^verbatim>\<open>image\<close> are primed, since
  HOL has constants of these names.
\<close>

record product =
  id' :: string
  title :: string
  price :: int
  image' :: string

record cart_item = product +
  quantity :: int

type_synonym cart = "cart_item list"

type_synonym local_storage = "string \<rightharpoonup> string"

datatype js_error = SyntaxError

record json_api =
  parse :: "string \<Rightarrow> js_error + cart"
  stringify :: "cart \<Rightarrow> string"

definition CART_KEY :: string where
  "CART_KEY = ''thinkers_shelf_cart_v2''"

subsection \<open>String helpers of the JavaScript library\<close>

text \<open>\<^verbatim>\<open>s.startsWith(p)\<close> and \<^verbatim>\<open>s.includes(p)\<close>.\<close>

definition startsWith :: "string \<Rightarrow> string \<Rightarrow> bool" where
  "startsWith s p = prefix p s"

definition includes_str :: "string \<Rightarrow> string \<Rightarrow> bool" where
  "includes_str s p = sublist p s"

text \<open>
  \<^verbatim>\<open>s.replace(pat, rep)\<close> with a string pattern: the first occurrence of \<open>pat\<close> is
  replaced, the rest of the string is kept.
\<close>

fun replace :: "string \<Rightarrow> string \<Rightarrow> string \<Rightarrow> string" where
  "replace [] pat rep = (if pat = [] then rep else [])"
| "replace (c # cs) pat rep =
     (if prefix pat (c # cs) then rep @ drop (length pat) (c # cs)
      else c # replace cs pat rep)"

subsection \<open>Path helpers\<close>

text \<open>
  \<^verbatim>\<open>
  function resolveImagePath(rawPath) {
    if (!rawPath) return "";
    if (rawPath.startsWith("http") || rawPath.startsWith("//")) return rawPath;
    const isDetailsPage = window.location.pathname.includes("/details/");
    const hasParentTraversal = rawPath.startsWith("../");
    if (isDetailsPage && !hasParentTraversal) { return "../" + rawPath; }
    if (!isDetailsPage && hasParentTraversal) { return rawPath.replace("../", ""); }
    return rawPath;
  }
  \<close>
\<close>

definition resolveImagePath :: "string \<Rightarrow> string \<Rightarrow> string" where
  "resolveImagePath pathname rawPath =
     (if rawPath = [] then []
      else if startsWith rawPath ''http'' \<or> startsWith rawPath ''//'' then rawPath
      else
        (let isDetailsPage = includes_str pathname ''/details/'';
             hasParentTraversal = startsWith rawPath ''../''
         in if isDetailsPage \<and> \<not> hasParentTraversal then ''../'' @ rawPath
            else if \<not> isDetailsPage \<and> hasParentTraversal then replace rawPath ''../'' []
            else rawPath))"

text \<open>
  \<^verbatim>\<open>function normalizePathForStorage(path) { return path.replace(/^\.\.\//, ""); }\<close>
  The pattern is anchored at the start and has no global flag: one leading \<^verbatim>\<open>../\<close> is
  removed, if there is one.
\<close>

definition normalizePathForStorage :: "string \<Rightarrow> string" where
  "normalizePathForStorage path = (if startsWith path ''../'' then drop 3 path else path)"

subsection \<open>Cart store\<close>

definition getItem :: "local_storage \<Rightarrow> string \<Rightarrow> string option" where
  "getItem ls key = ls key"

definition setItem :: "local_storage \<Rightarrow> string \<Rightarrow> string \<Rightarrow> local_storage" where
  "setItem ls key v = ls(key \<mapsto> v)"

text \<open>
  The body of the \<^verbatim>\<open>try\<close> block of \<^verbatim>\<open>getCart\<close>:
  \<^verbatim>\<open>const raw = localStorage.getItem(CART_KEY); return raw ? JSON.parse(raw) : [];\<close>
  A missing entry (\<^verbatim>\<open>null\<close>) and the empty string are falsy.
\<close>

definition getCart_try :: "json_api \<Rightarrow> local_storage \<Rightarrow> js_error + cart" where
  "getCart_try JSON ls =
     (case getItem ls CART_KEY of
        None \<Rightarrow> Inr []
      | Some raw \<Rightarrow> if raw \<noteq> [] then parse JSON raw else Inr [])"

text \<open>\<^verbatim>\<open>try { ... } catch (e) { console.error("Cart parse error", e); return []; }\<close>\<close>

definition getCart :: "json_api \<Rightarrow> local_storage \<Rightarrow> cart" where
  "getCart JSON ls = (case getCart_try JSON ls of Inl e \<Rightarrow> [] | Inr cart \<Rightarrow> cart)"

text \<open>
  \<^verbatim>\<open>localStorage.setItem(CART_KEY, JSON.stringify(cart)); updateCartCount();\<close>
  \<^verbatim>\<open>updateCartCount\<close> reads the cart again and writes the count into the badges; it does
  not touch the storage. The count it computes is \<open>updateCartCount\<close> below.
\<close>

definition saveCart :: "json_api \<Rightarrow> cart \<Rightarrow> local_storage \<Rightarrow> local_storage" where
  "saveCart JSON cart ls = setItem ls CART_KEY (stringify JSON cart)"

text \<open>\<^verbatim>\<open>cart.reduce((sum, item) => sum + item.quantity, 0)\<close>\<close>

definition updateCartCount :: "json_api \<Rightarrow> local_storage \<Rightarrow> int" where
  "updateCartCount JSON ls = foldl (\<lambda>sum item. sum + quantity item) 0 (getCart JSON ls)"

subsection \<open>Mutations\<close>

text \<open>
  \<^verbatim>\<open>cart.find(p)\<close> returns the first element that satisfies \<open>p\<close>, by reference; the
  assignments to its fields change that element of the array and no other. \<open>update_found\<close>
  is this in-place change of the element that \<^verbatim>\<open>find\<close> returned.
\<close>

fun update_found :: "('a \<Rightarrow> bool) \<Rightarrow> ('a \<Rightarrow> 'a) \<Rightarrow> 'a list \<Rightarrow> 'a list" where
  "update_found p f [] = []"
| "update_found p f (x # xs) = (if p x then f x # xs else x # update_found p f xs)"

text \<open>
  \<^verbatim>\<open>
  function addToCart(product) {
    const cart = getCart();
    const existing = cart.find((x) => x.id === product.id);
    if (existing) { existing.quantity += 1; }
    else { cart.push({ ...product, image: normalizePathForStorage(product.image), quantity: 1 }); }
    saveCart(cart);
    ...
  }
  \<close>
  The rest of the function changes the clicked button's label for a second.
\<close>

definition addToCart :: "json_api \<Rightarrow> product \<Rightarrow> local_storage \<Rightarrow> local_storage" where
  "addToCart JSON product ls =
     (let cart = getCart JSON ls in
      case find (\<lambda>x. id' x = id' product) cart of
        Some existing \<Rightarrow>
          saveCart JSON
            (update_found (\<lambda>x. id' x = id' product) (\<lambda>x. x\<lparr>quantity := quantity x + 1\<rparr>) cart) ls
      | None \<Rightarrow>
          saveCart JSON
            (cart @ [\<lparr>id' = id' product, title = title product, price = price product,
                      image' = normalizePathForStorage (image' product), quantity = 1\<rparr>]) ls)"

text \<open>
  \<^verbatim>\<open>
  function removeFromCart(id) {
    const cart = getCart().filter((x) => x.id !== id);
    saveCart(cart);
    renderCart();
  }
  \<close>
\<close>

definition removeFromCart :: "json_api \<Rightarrow> string \<Rightarrow> local_storage \<Rightarrow> local_storage" where
  "removeFromCart JSON i ls = saveCart JSON (filter (\<lambda>x. id' x \<noteq> i) (getCart JSON ls)) ls"

text \<open>
  \<^verbatim>\<open>
  function updateQuantity(id, delta) {
    const cart = getCart();
    const item = cart.find((x) => x.id === id);
    if (!item) return;
    item.quantity += delta;
    if (item.quantity < 1) item.quantity = 1;
    saveCart(cart);
    renderCart();
  }
  \<close>
\<close>

definition updateQuantity :: "json_api \<Rightarrow> string \<Rightarrow> int \<Rightarrow> local_storage \<Rightarrow> local_storage" where
  "updateQuantity JSON i delta ls =
     (let cart = getCart JSON ls in
      case find (\<lambda>x. id' x = i) cart of
        None \<Rightarrow> ls
      | Some item \<Rightarrow>
          saveCart JSON
            (update_found (\<lambda>x. id' x = i)
               (\<lambda>x. let x1 = x\<lparr>quantity := quantity x + delta\<rparr>
                    in if quantity x1 < 1 then x1\<lparr>quantity := 1\<rparr> else x1)
               cart) ls)"

text \<open>\<^verbatim>\<open>function clearCart() { saveCart([]); renderCart(); }\<close>\<close>

definition clearCart :: "json_api \<Rightarrow> local_storage \<Rightarrow> local_storage" where
  "clearCart JSON ls = saveCart JSON [] ls"

subsection \<open>Cart view\<close>

text \<open>
  \<^verbatim>\<open>renderCart\<close> fills \<^verbatim>\<open>#cart-mount\<close> with one row per item and writes the grand total
  into \<^verbatim>\<open>#cart-total-amount\<close>; both elements are taken to be on the page (without the
  mount the function returns at once). A row is modelled by the values interpolated into its
  markup, the total by the number handed to \<^verbatim>\<open>formatCurrency\<close>.
  \<^verbatim>\<open>
  let total = 0;
  mount.innerHTML = cart.map((item) => {
      const lineTotal = item.price * item.quantity;
      total += lineTotal;
      const displayImage = resolveImagePath(item.image);
      return `...`;
  }).join("");
  if (totalEl) totalEl.textContent = formatCurrency(total);
  \<close>
\<close>

record cart_row =
  item :: cart_item
  displayImage :: string
  lineTotal :: int




subsection \<open>A reference instance of the JSON parameters\<close>

text \<open>
  The theorems below hold for every \<open>json_api\<close> that gives back the array it wrote. The
  following writer and reader show that there is one: the writer produces the text that
  \<^verbatim>\<open>JSON.stringify\<close> produces for an array of items (members in the order \<^verbatim>\<open>id\<close>,
  \<^verbatim>\<open>title\<close>, \<^verbatim>\<open>price\<close>, \<^verbatim>\<open>image\<close>, \<^verbatim>\<open>quantity\<close>, no white space, quotes and
  backslashes escaped), the reader follows that layout and answers \<open>SyntaxError\<close> on a
  string that departs from it. The list reader takes the length of its input as fuel, one
  unit per item. The instance is used to instantiate the theorems at concrete carts, not as
  a model of the browser's parser.
\<close>

fun escape :: "string \<Rightarrow> string" where
  "escape [] = []"
| "escape (c # cs) =
     (if c = CHR 0x22 \<or> c = CHR 0x5C then CHR 0x5C # c # escape cs else c # escape cs)"

definition write_string :: "string \<Rightarrow> string" where
  "write_string s = CHR 0x22 # escape s @ [CHR 0x22]"

fun read_chars :: "string \<Rightarrow> string \<Rightarrow> (string \<times> string) option" where
  "read_chars [] acc = None"
| "read_chars (c # cs) acc =
     (if c = CHR 0x22 then Some (rev acc, cs)
      else if c = CHR 0x5C then (case cs of [] \<Rightarrow> None | d # ds \<Rightarrow> read_chars ds (d # acc))
      else read_chars cs (c # acc))"

definition read_string :: "string \<Rightarrow> (string \<times> string) option" where
  "read_string s = (case s of [] \<Rightarrow> None | c # cs \<Rightarrow> if c = CHR 0x22 then read_chars cs [] else None)"

definition is_digit :: "char \<Rightarrow> bool" where
  "is_digit c = (48 \<le> (of_char c :: nat) \<and> (of_char c :: nat) \<le> 57)"

definition digit_val :: "char \<Rightarrow> nat" where
  "digit_val c = of_char c - 48"

definition digit_char :: "nat \<Rightarrow> char" where
  "digit_char d = char_of (48 + d)"

function dec :: "nat \<Rightarrow> string" where
  "dec n = (if n < 10 then [digit_char n] else dec (n div 10) @ [digit_char (n mod 10)])"
  by pat_completeness auto
termination
  by (relation "measure id") auto

declare dec.simps [simp del]

definition write_number :: "int \<Rightarrow> string" where
  "write_number i = (if i < 0 then CHR ''-'' # dec (nat (- i)) else dec (nat i))"

fun read_digits :: "string \<Rightarrow> nat \<Rightarrow> nat \<times> string" where
  "read_digits [] acc = (acc, [])"
| "read_digits (c # cs) acc =
     (if is_digit c then read_digits cs (10 * acc + digit_val c) else (acc, c # cs))"

definition read_nat :: "string \<Rightarrow> (nat \<times> string) option" where
  "read_nat s = (case s of [] \<Rightarrow> None | c # cs \<Rightarrow> if is_digit c then Some (read_digits s 0) else None)"

definition read_number :: "string \<Rightarrow> (int \<times> string) option" where
  "read_number s =
     (case s of
        [] \<Rightarrow> None
      | c # cs \<Rightarrow>
          if c = CHR ''-'' then map_option (\<lambda>(n, r). (- int n, r)) (read_nat cs)
          else map_option (\<lambda>(n, r). (int n, r)) (read_nat s))"

definition expect :: "string \<Rightarrow> string \<Rightarrow> string option" where
  "expect lit s = (if prefix lit s then Some (drop (length lit) s) else None)"

definition write_key :: "string \<Rightarrow> string" where
  "write_key k = write_string k @ '':''"

definition write_item :: "cart_item \<Rightarrow> string" where
  "write_item x =
     ''{'' @ write_key ''id'' @ write_string (id' x) @
     '','' @ write_key ''title'' @ write_string (title x) @
     '','' @ write_key ''price'' @ write_number (price x) @
     '','' @ write_key ''image'' @ write_string (image' x) @
     '','' @ write_key ''quantity'' @ write_number (quantity x) @ ''}''"

definition read_item :: "string \<Rightarrow> (cart_item \<times> string) option" where
  "read_item s =
     Option.bind (expect (''{'' @ write_key ''id'') s) (\<lambda>s.
     Option.bind (read_string s) (\<lambda>(i, s).
     Option.bind (expect ('','' @ write_key ''title'') s) (\<lambda>s.
     Option.bind (read_string s) (\<lambda>(t, s).
     Option.bind (expect ('','' @ write_key ''price'') s) (\<lambda>s.
     Option.bind (read_number s) (\<lambda>(p, s).
     Option.bind (expect ('','' @ write_key ''image'') s) (\<lambda>s.
     Option.bind (read_string s) (\<lambda>(m, s).
     Option.bind (expect ('','' @ write_key ''quantity'') s) (\<lambda>s.
     Option.bind (read_number s) (\<lambda>(q, s).
     Option.bind (expect ''}'' s) (\<lambda>s.
     Some (\<lparr>id' = i, title = t, price = p, image' = m, quantity = q\<rparr>, s))))))))))))"

fun write_items :: "cart \<Rightarrow> string" where
  "write_items [] = []"
| "write_items [x] = write_item x"
| "write_items (x # xs) = write_item x @ '','' @ write_items xs"

fun read_items :: "nat \<Rightarrow> string \<Rightarrow> cart option" where
  "read_items 0 s = None"
| "read_items (Suc fuel) s =
     (case read_item s of
        None \<Rightarrow> None
      | Some (x, r) \<Rightarrow>
          if r = '']'' then Some [x]
          else (case expect '','' r of
                  None \<Rightarrow> None
                | Some r' \<Rightarrow> map_option (Cons x) (read_items fuel r')))"

definition ref_stringify :: "cart \<Rightarrow> string" where
  "ref_stringify cart = ''['' @ write_items cart @ '']''"

definition ref_parse :: "string \<Rightarrow> js_error + cart" where
  "ref_parse s =
     (case expect ''['' s of
        None \<Rightarrow> Inl SyntaxError
      | Some r \<Rightarrow>
          if r = '']'' then Inr []
          else (case read_items (length r) r of None \<Rightarrow> Inl SyntaxError | Some cart \<Rightarrow> Inr cart))"

definition ref_JSON :: json_api where
  "ref_JSON = \<lparr>parse = ref_parse, stringify = ref_stringify\<rparr>"

text \<open>The assumption on the JSON parameters: an array written is read back unchanged.\<close>

definition lossless :: "json_api \<Rightarrow> bool" where
  "lossless JSON \<longleftrightarrow>
     (\<forall>cart. stringify JSON cart \<noteq> [] \<and> parse JSON (stringify JSON cart) = Inr cart)"

section \<open>Properties\<close>

subsection \<open>The reference instance is lossless\<close>

lemma read_chars_escape: "read_chars (escape s @ CHR 0x22 # rest) acc = Some (rev acc @ s, rest)"
  by (induction s arbitrary: acc) auto

lemma read_string_write: "read_string (write_string s @ rest) = Some (s, rest)"
  by (simp add: read_string_def write_string_def read_chars_escape)

lemma is_digit_char: "d < 10 \<Longrightarrow> is_digit (digit_char d)"
  by (simp add: is_digit_def digit_char_def)

lemma digit_val_char: "d < 10 \<Longrightarrow> digit_val (digit_char d) = d"
  by (simp add: digit_val_def digit_char_def)

lemma dec_digits: "c \<in> set (dec n) \<Longrightarrow> is_digit c"
proof (induction n arbitrary: c rule: dec.induct)
  case (1 n)
  show ?case
  proof (cases "n < 10")
    case True
    with "1.prems" show ?thesis by (simp add: dec.simps [of n] is_digit_char)
  next
    case False
    with "1.prems" "1.IH" show ?thesis
      by (auto simp add: dec.simps [of n] is_digit_char)
  qed
qed

lemma dec_not_Nil: "dec n \<noteq> []"
  by (subst dec.simps) simp

lemma read_digits_append:
  "(\<And>c. c \<in> set ds \<Longrightarrow> is_digit c) \<Longrightarrow> rest = [] \<or> \<not> is_digit (hd rest) \<Longrightarrow>
   read_digits (ds @ rest) acc = (foldl (\<lambda>a c. 10 * a + digit_val c) acc ds, rest)"
proof (induction ds arbitrary: acc)
  case Nil
  then show ?case by (cases rest) auto
next
  case (Cons d ds)
  then show ?case by simp
qed

lemma dec_value: "foldl (\<lambda>a c. 10 * a + digit_val c) 0 (dec n) = n"
proof (induction n rule: dec.induct)
  case (1 n)
  show ?case
  proof (cases "n < 10")
    case True
    then show ?thesis by (simp add: dec.simps [of n] digit_val_char)
  next
    case False
    with "1.IH" show ?thesis by (simp add: dec.simps [of n] digit_val_char)
  qed
qed

lemma read_nat_dec:
  "rest = [] \<or> \<not> is_digit (hd rest) \<Longrightarrow> read_nat (dec n @ rest) = Some (n, rest)"
proof -
  assume r: "rest = [] \<or> \<not> is_digit (hd rest)"
  obtain c cs where d: "dec n = c # cs"
    using dec_not_Nil [of n] by (cases "dec n") auto
  have "is_digit c" using dec_digits [of c n] d by simp
  moreover have "read_digits (dec n @ rest) 0 = (n, rest)"
    using read_digits_append [of "dec n" rest 0] r dec_digits dec_value by simp
  ultimately show ?thesis by (simp add: read_nat_def d [symmetric]) (simp add: d)
qed


lemma dec_hd_not_minus: "hd (dec n @ rest) \<noteq> CHR ''-''"
proof -
  obtain c cs where d: "dec n = c # cs"
    using dec_not_Nil [of n] by (cases "dec n") auto
  have "is_digit c" using dec_digits [of c n] d by simp
  then have "c \<noteq> CHR ''-''" by (auto simp add: is_digit_def)
  then show ?thesis by (simp add: d)
qed

lemma read_number_write:
  assumes "rest = [] \<or> \<not> is_digit (hd rest)"
  shows "read_number (write_number i @ rest) = Some (i, rest)"
proof (cases "i < 0")
  case True
  then show ?thesis
    by (simp add: read_number_def write_number_def read_nat_dec [OF assms])
next
  case False
  obtain c cs where d: "dec (nat i) @ rest = c # cs"
    using dec_not_Nil [of "nat i"] by (cases "dec (nat i)") auto
  have "c \<noteq> CHR ''-''" using dec_hd_not_minus [of "nat i" rest] d by simp
  then have "read_number (dec (nat i) @ rest) =
      map_option (\<lambda>(n, r). (int n, r)) (read_nat (dec (nat i) @ rest))"
    by (simp add: read_number_def d)
  with False show ?thesis
    by (simp add: write_number_def read_nat_dec [OF assms])
qed

lemma expect_append: "expect lit (lit @ rest) = Some rest"
  by (simp add: expect_def)

lemma not_digit_comma: "\<not> is_digit (CHR '','')" and not_digit_brace: "\<not> is_digit (CHR ''}'')"
  by (simp_all add: is_digit_def)

lemma expect_append2: "expect (a @ b) (a @ b @ rest) = Some rest"
  using expect_append [of "a @ b" rest] by simp

lemma read_item_write: "read_item (write_item x @ rest) = Some (x, rest)"
  by (simp add: read_item_def write_item_def expect_append expect_append2 read_string_write
      read_number_write not_digit_comma not_digit_brace del: append.simps)

lemma write_items_Cons:
  "write_items (x # xs) = write_item x @ (if xs = [] then [] else '','' @ write_items xs)"
  by (cases xs) simp_all

lemma write_item_not_Nil: "write_item x \<noteq> []"
  by (simp add: write_item_def)

lemma write_items_not_bracket: "xs \<noteq> [] \<Longrightarrow> write_items xs @ '']'' \<noteq> '']''"
  by (cases xs) (simp_all add: write_items_Cons write_item_def)

lemma read_items_write:
  "xs \<noteq> [] \<Longrightarrow> length xs \<le> fuel \<Longrightarrow> read_items fuel (write_items xs @ '']'') = Some xs"
proof (induction xs arbitrary: fuel)
  case Nil
  then show ?case by simp
next
  case (Cons x xs)
  then obtain f where f: "fuel = Suc f" by (cases fuel) auto
  show ?case
  proof (cases "xs = []")
    case True
    then show ?thesis by (simp add: f read_item_write)
  next
    case False
    with Cons.prems f have "read_items f (write_items xs @ '']'') = Some xs"
      using Cons.IH [of f] by simp
    with False show ?thesis
      by (simp add: f write_items_Cons read_item_write expect_def)
  qed
qed

lemma length_write_items: "length xs \<le> length (write_items xs)"
proof (induction xs)
  case Nil
  then show ?case by simp
next
  case (Cons x xs)
  have "1 \<le> length (write_item x)"
    using write_item_not_Nil [of x] by (cases "write_item x") auto
  with Cons show ?case by (simp add: write_items_Cons)
qed

lemma ref_parse_stringify: "ref_parse (ref_stringify cart) = Inr cart"
proof (cases "cart = []")
  case True
  then show ?thesis by (simp add: ref_parse_def ref_stringify_def expect_def)
next
  case False
  have "length cart \<le> length (write_items cart @ '']'')"
    using length_write_items [of cart] by simp
  then have r: "read_items (length (write_items cart @ '']'')) (write_items cart @ '']'') = Some cart"
    by (rule read_items_write [OF False])
  have e: "expect ''['' (ref_stringify cart) = Some (write_items cart @ '']'')"
    by (simp add: ref_stringify_def expect_def)
  have n: "write_items cart @ '']'' \<noteq> '']''"
    by (rule write_items_not_bracket [OF False])
  show ?thesis
    by (simp only: ref_parse_def e r n option.case if_False)
qed

lemma ref_stringify_not_Nil: "ref_stringify cart \<noteq> []"
  by (simp add: ref_stringify_def)

lemma lossless_ref_JSON: "lossless ref_JSON"
  by (simp add: lossless_def ref_JSON_def ref_parse_stringify ref_stringify_not_Nil)

subsection \<open>Reading back what an operation saved\<close>

lemma getCart_saveCart: "lossless JSON \<Longrightarrow> getCart JSON (saveCart JSON cart ls) = cart"
  by (simp add: lossless_def getCart_def getCart_try_def saveCart_def getItem_def setItem_def)


lemma find_first:
  "p x \<Longrightarrow> (\<And>y. y \<in> set pre \<Longrightarrow> \<not> p y) \<Longrightarrow> find p (pre @ x # post) = Some x"
  by (induction pre) auto

lemma find_Some_set: "find p xs = Some x \<Longrightarrow> x \<in> set xs \<and> p x"
  by (induction xs) (auto split: if_splits)

lemma getCart_addToCart:
  "lossless JSON \<Longrightarrow>
   getCart JSON (addToCart JSON p ls) =
     (if id' p \<in> id' ` set (getCart JSON ls)
      then update_found (\<lambda>x. id' x = id' p) (\<lambda>x. x\<lparr>quantity := quantity x + 1\<rparr>) (getCart JSON ls)
      else getCart JSON ls @
        [\<lparr>id' = id' p, title = title p, price = price p,
          image' = normalizePathForStorage (image' p), quantity = 1\<rparr>])"
proof (cases "find (\<lambda>x. id' x = id' p) (getCart JSON ls)")
  case None
  assume "lossless JSON"
  moreover from None have "id' p \<notin> id' ` set (getCart JSON ls)"
    by (auto simp add: find_None_iff)
  ultimately show ?thesis
    by (simp add: addToCart_def Let_def None getCart_saveCart)
next
  case (Some existing)
  assume "lossless JSON"
  moreover from find_Some_set [OF Some] have "id' p \<in> id' ` set (getCart JSON ls)"
    by force
  ultimately show ?thesis
    by (simp add: addToCart_def Let_def Some getCart_saveCart)
qed

lemma getCart_removeFromCart:
  "lossless JSON \<Longrightarrow>
   getCart JSON (removeFromCart JSON i ls) = filter (\<lambda>x. id' x \<noteq> i) (getCart JSON ls)"
  by (simp add: removeFromCart_def getCart_saveCart)



lemma getCart_empty_storage: "getCart JSON Map.empty = []"
  by (simp add: getCart_def getCart_try_def getItem_def)












text \<open>
  C7. With an id that no item of the cart has, \<^verbatim>\<open>removeFromCart\<close> leaves the cart as it
  was (it saves the same array again) and \<^verbatim>\<open>updateQuantity\<close> returns before it writes
  anything, so the storage itself is unchanged. Neither has a path that raises an error.
\<close>

theorem missing_id_is_no_op:
  assumes "lossless JSON"
    and "i \<notin> id' ` set (getCart JSON ls)"
  shows "getCart JSON (removeFromCart JSON i ls) = getCart JSON ls \<and>
         updateQuantity JSON i delta ls = ls"
proof -
  have "filter (\<lambda>x. id' x \<noteq> i) (getCart JSON ls) = getCart JSON ls"
    using assms(2) by (auto simp add: filter_id_conv)
  moreover have "find (\<lambda>x. id' x = i) (getCart JSON ls) = None"
    using assms(2) by (auto simp add: find_None_iff)
  ultimately show ?thesis
    by (simp add: getCart_removeFromCart [OF assms(1)] updateQuantity_def)
qed

theorem missing_id_is_no_op_witness:
  "lossless ref_JSON \<and>
   ''b9'' \<notin> id' ` set (getCart ref_JSON
      (saveCart ref_JSON
         [\<lparr>id' = ''b1'', title = ''Meditations'', price = 1000, image' = ''assets/m.jpg'',
            quantity = 2\<rparr>] Map.empty)) \<and>
   getCart ref_JSON
     (removeFromCart ref_JSON ''b9''
        (saveCart ref_JSON
           [\<lparr>id' = ''b1'', title = ''Meditations'', price = 1000, image' = ''assets/m.jpg'',
              quantity = 2\<rparr>] Map.empty)) =
     [\<lparr>id' = ''b1'', title = ''Meditations'', price = 1000, image' = ''assets/m.jpg'',
        quantity = 2\<rparr>] \<and>
   updateQuantity ref_JSON ''b9'' (- 1)
     (saveCart ref_JSON
        [\<lparr>id' = ''b1'', title = ''Meditations'', price = 1000, image' = ''assets/m.jpg'',
           quantity = 2\<rparr>] Map.empty) =
     saveCart ref_JSON
       [\<lparr>id' = ''b1'', title = ''Meditations'', price = 1000, image' = ''assets/m.jpg'',
          quantity = 2\<rparr>] Map.empty"
proof -
  note l = lossless_ref_JSON
  let ?ls = "saveCart ref_JSON
      [\<lparr>id' = ''b1'', title = ''Meditations'', price = 1000, image' = ''assets/m.jpg'',
         quantity = 2\<rparr>] Map.empty"
  have a: "''b9'' \<notin> id' ` set (getCart ref_JSON ?ls)"
    by (simp add: getCart_saveCart [OF l])
  from l a missing_id_is_no_op [OF l a, of "- 1"] show ?thesis
    by (simp add: getCart_saveCart [OF l])
qed


lemma startsWith_normalizePathForStorage:
  "startsWith (normalizePathForStorage s) ''../'' \<longleftrightarrow> startsWith s ''../../''"
  by (auto simp add: normalizePathForStorage_def startsWith_def prefix_def)

lemma set_update_found: "y \<in> set (update_found p f xs) \<Longrightarrow> y \<in> set xs \<or> (\<exists>x\<in>set xs. y = f x)"
  by (induction xs) (auto split: if_splits)

text \<open>
  C4, as the code has it. \<^verbatim>\<open>addToCart\<close> stores the descriptor's image with one leading
  \<^verbatim>\<open>../\<close> removed: the image of the appended item begins with \<^verbatim>\<open>../\<close> exactly when the
  descriptor's image begins with \<^verbatim>\<open>../../\<close>. So when no stored image begins with \<^verbatim>\<open>../\<close>
  and the descriptor's image does not begin with \<^verbatim>\<open>../../\<close>, no image in the cart after
  \<^verbatim>\<open>addToCart\<close> begins with \<^verbatim>\<open>../\<close>.
\<close>

theorem addToCart_stored_image:
  assumes "lossless JSON"
  shows "(id' p \<notin> id' ` set (getCart JSON ls) \<longrightarrow>
            (\<exists>x. getCart JSON (addToCart JSON p ls) = getCart JSON ls @ [x] \<and>
                 image' x = normalizePathForStorage (image' p) \<and>
                 (startsWith (image' x) ''../'' \<longleftrightarrow> startsWith (image' p) ''../../''))) \<and>
         ((\<forall>x\<in>set (getCart JSON ls). \<not> startsWith (image' x) ''../'') \<and>
          \<not> startsWith (image' p) ''../../'' \<longrightarrow>
            (\<forall>x\<in>set (getCart JSON (addToCart JSON p ls)). \<not> startsWith (image' x) ''../''))"
proof (intro conjI impI)
  assume "id' p \<notin> id' ` set (getCart JSON ls)"
  then show "\<exists>x. getCart JSON (addToCart JSON p ls) = getCart JSON ls @ [x] \<and>
      image' x = normalizePathForStorage (image' p) \<and>
      (startsWith (image' x) ''../'' \<longleftrightarrow> startsWith (image' p) ''../../'')"
    by (simp add: getCart_addToCart [OF assms] startsWith_normalizePathForStorage)
next
  assume a: "(\<forall>x\<in>set (getCart JSON ls). \<not> startsWith (image' x) ''../'') \<and>
    \<not> startsWith (image' p) ''../../''"
  show "\<forall>x\<in>set (getCart JSON (addToCart JSON p ls)). \<not> startsWith (image' x) ''../''"
  proof (cases "id' p \<in> id' ` set (getCart JSON ls)")
    case True
    show ?thesis
    proof
      fix y
      assume "y \<in> set (getCart JSON (addToCart JSON p ls))"
      then have "y \<in> set (getCart JSON ls) \<or>
          (\<exists>x\<in>set (getCart JSON ls). y = x\<lparr>quantity := quantity x + 1\<rparr>)"
        using True set_update_found by (simp add: getCart_addToCart [OF assms]) fast
      with a show "\<not> startsWith (image' y) ''../''" by auto
    qed
  next
    case False
    with a show ?thesis
      by (simp add: getCart_addToCart [OF assms] startsWith_normalizePathForStorage)
  qed
qed

theorem addToCart_stored_image_witness:
  "lossless ref_JSON \<and>
   \<not> startsWith ''../assets/e.jpg'' ''../../'' \<and>
   \<not> startsWith
       (image' (last (getCart ref_JSON
          (addToCart ref_JSON
             \<lparr>id' = ''b3'', title = ''Ethics'', price = 1800, image' = ''../assets/e.jpg''\<rparr>
             Map.empty)))) ''../'' \<and>
   getCart ref_JSON
     (addToCart ref_JSON
        \<lparr>id' = ''b3'', title = ''Ethics'', price = 1800, image' = ''../assets/e.jpg''\<rparr>
        Map.empty) =
     [\<lparr>id' = ''b3'', title = ''Ethics'', price = 1800, image' = ''assets/e.jpg'',
        quantity = 1\<rparr>]"
proof -
  note l = lossless_ref_JSON
  let ?p = "\<lparr>id' = ''b3'', title = ''Ethics'', price = 1800, image' = ''../assets/e.jpg''\<rparr>"
  have a: "\<not> startsWith ''../assets/e.jpg'' ''../../''"
    by (simp add: startsWith_def)
  have b: "\<forall>x\<in>set (getCart ref_JSON (addToCart ref_JSON ?p Map.empty)).
      \<not> startsWith (image' x) ''../''"
    using addToCart_stored_image [OF l, of ?p Map.empty, THEN conjunct2] a
    by (simp add: getCart_empty_storage)
  have c: "getCart ref_JSON (addToCart ref_JSON ?p Map.empty) =
      [\<lparr>id' = ''b3'', title = ''Ethics'', price = 1800, image' = ''assets/e.jpg'',
         quantity = 1\<rparr>]"
    by (simp add: getCart_addToCart [OF l] getCart_empty_storage normalizePathForStorage_def
        startsWith_def)
  have d: "\<not> startsWith
      (image' (last (getCart ref_JSON (addToCart ref_JSON ?p Map.empty)))) ''../''"
    using b by (simp add: c)
  from l a c d show ?thesis by blast
qed

text \<open>
  C4, as the claim has it, fails: on the empty storage, the descriptor with the image
  \<^verbatim>\<open>../../assets/x.jpg\<close> is stored with the image \<^verbatim>\<open>../assets/x.jpg\<close>.
\<close>

theorem addToCart_stacked_prefix_counterexample:
  "getCart ref_JSON
     (addToCart ref_JSON
        \<lparr>id' = ''b1'', title = ''Meditations'', price = 1000, image' = ''../../assets/x.jpg''\<rparr>
        Map.empty) =
     [\<lparr>id' = ''b1'', title = ''Meditations'', price = 1000, image' = ''../assets/x.jpg'',
        quantity = 1\<rparr>] \<and>
   startsWith ''../assets/x.jpg'' ''../''"
  by (simp add: getCart_addToCart [OF lossless_ref_JSON] getCart_empty_storage
      normalizePathForStorage_def startsWith_def)

text \<open>
  C5, as the code has it. On a page whose path contains \<^verbatim>\<open>/details/\<close>, a raw path that is
  not empty and begins with none of \<^verbatim>\<open>http\<close>, \<^verbatim>\<open>//\<close> and \<^verbatim>\<open>../\<close> is resolved to
  \<^verbatim>\<open>../\<close> followed by the raw path.
\<close>

theorem resolveImagePath_nested:
  assumes "includes_str pathname ''/details/''"
    and "rawPath \<noteq> []"
    and "\<not> startsWith rawPath ''http''"
    and "\<not> startsWith rawPath ''//''"
    and "\<not> startsWith rawPath ''../''"
  shows "resolveImagePath pathname rawPath = ''../'' @ rawPath"
  using assms by (simp add: resolveImagePath_def)

theorem resolveImagePath_nested_witness:
  "includes_str ''/details/walden.html'' ''/details/'' \<and>
   ''assets/cover.jpg'' \<noteq> [] \<and>
   \<not> startsWith ''assets/cover.jpg'' ''http'' \<and>
   \<not> startsWith ''assets/cover.jpg'' ''//'' \<and>
   \<not> startsWith ''assets/cover.jpg'' ''../'' \<and>
   resolveImagePath ''/details/walden.html'' ''assets/cover.jpg'' = ''../assets/cover.jpg''"
proof -
  have a: "includes_str ''/details/walden.html'' ''/details/''"
    by (simp add: includes_str_def sublist_code)
  have b: "''assets/cover.jpg'' \<noteq> []" by simp
  have c: "\<not> startsWith ''assets/cover.jpg'' ''http''" by (simp add: startsWith_def)
  have d: "\<not> startsWith ''assets/cover.jpg'' ''//''" by (simp add: startsWith_def)
  have e: "\<not> startsWith ''assets/cover.jpg'' ''../''" by (simp add: startsWith_def)
  from a b c d e resolveImagePath_nested [OF a b c d e] show ?thesis by simp
qed

text \<open>
  C5, as the claim has it, fails: \<^verbatim>\<open>httpdocs/cover.jpg\<close> begins with no scheme, with no
  \<^verbatim>\<open>//\<close> and with no \<^verbatim>\<open>../\<close>, and on a details page it is returned as it is.
\<close>

theorem resolveImagePath_http_counterexample:
  "''httpdocs/cover.jpg'' \<noteq> [] \<and>
   \<not> startsWith ''httpdocs/cover.jpg'' ''http://'' \<and>
   \<not> startsWith ''httpdocs/cover.jpg'' ''https://'' \<and>
   \<not> includes_str ''httpdocs/cover.jpg'' '':'' \<and>
   \<not> startsWith ''httpdocs/cover.jpg'' ''//'' \<and>
   \<not> startsWith ''httpdocs/cover.jpg'' ''../'' \<and>
   includes_str ''/details/walden.html'' ''/details/'' \<and>
   resolveImagePath ''/details/walden.html'' ''httpdocs/cover.jpg'' = ''httpdocs/cover.jpg'' \<and>
   resolveImagePath ''/details/walden.html'' ''httpdocs/cover.jpg'' \<noteq>
     ''../'' @ ''httpdocs/cover.jpg''"
  by (simp add: resolveImagePath_def startsWith_def includes_str_def sublist_code)





text \<open>
  C9. After \<^verbatim>\<open>removeFromCart(id)\<close> and then \<^verbatim>\<open>addToCart\<close> of a descriptor with that id, the
  cart is the old one without the items of that id, followed by a fresh item with quantity 1:
  the only item with the id has quantity 1, whatever quantity was there before.
\<close>

theorem remove_then_add_is_fresh:
  assumes "lossless JSON"
  shows "getCart JSON (addToCart JSON p (removeFromCart JSON (id' p) ls)) =
           filter (\<lambda>x. id' x \<noteq> id' p) (getCart JSON ls) @
             [\<lparr>id' = id' p, title = title p, price = price p,
               image' = normalizePathForStorage (image' p), quantity = 1\<rparr>] \<and>
         (\<forall>x\<in>set (getCart JSON (addToCart JSON p (removeFromCart JSON (id' p) ls))).
            id' x = id' p \<longrightarrow> quantity x = 1)"
proof -
  have "id' p \<notin> id' ` set (getCart JSON (removeFromCart JSON (id' p) ls))"
    by (auto simp add: getCart_removeFromCart [OF assms])
  then have "getCart JSON (addToCart JSON p (removeFromCart JSON (id' p) ls)) =
      filter (\<lambda>x. id' x \<noteq> id' p) (getCart JSON ls) @
        [\<lparr>id' = id' p, title = title p, price = price p,
          image' = normalizePathForStorage (image' p), quantity = 1\<rparr>]"
    by (simp add: getCart_addToCart [OF assms] getCart_removeFromCart [OF assms])
  then show ?thesis by auto
qed

theorem remove_then_add_is_fresh_witness:
  "lossless ref_JSON \<and>
   getCart ref_JSON
     (addToCart ref_JSON
        \<lparr>id' = ''b1'', title = ''Meditations'', price = 1000, image' = ''assets/m.jpg''\<rparr>
        (removeFromCart ref_JSON ''b1''
           (saveCart ref_JSON
              [\<lparr>id' = ''b1'', title = ''Meditations'', price = 1000, image' = ''assets/m.jpg'',
                 quantity = 7\<rparr>,
               \<lparr>id' = ''b2'', title = ''Walden'', price = 2500, image' = ''assets/w.jpg'',
                 quantity = 1\<rparr>] Map.empty))) =
     [\<lparr>id' = ''b2'', title = ''Walden'', price = 2500, image' = ''assets/w.jpg'',
        quantity = 1\<rparr>,
      \<lparr>id' = ''b1'', title = ''Meditations'', price = 1000, image' = ''assets/m.jpg'',
        quantity = 1\<rparr>]"
proof -
  note l = lossless_ref_JSON
  let ?p = "\<lparr>id' = ''b1'', title = ''Meditations'', price = 1000, image' = ''assets/m.jpg''\<rparr>"
  let ?ls = "saveCart ref_JSON
      [\<lparr>id' = ''b1'', title = ''Meditations'', price = 1000, image' = ''assets/m.jpg'',
         quantity = 7\<rparr>,
       \<lparr>id' = ''b2'', title = ''Walden'', price = 2500, image' = ''assets/w.jpg'',
         quantity = 1\<rparr>] Map.empty"
  from l remove_then_add_is_fresh [OF l, of ?p ?ls, THEN conjunct1] show ?thesis
    by (simp add: getCart_saveCart [OF l] normalizePathForStorage_def startsWith_def)
qed

text \<open>
  C10. \<^verbatim>\<open>removeFromCart(id)\<close> removes every item whose id is the argument, also when several
  items share it, and keeps the items with other ids in their order.
\<close>

theorem removeFromCart_removes_all:
  assumes "lossless JSON"
  shows "(\<forall>x\<in>set (getCart JSON (removeFromCart JSON i ls)). id' x \<noteq> i) \<and>
         getCart JSON (removeFromCart JSON i ls) = filter (\<lambda>x. id' x \<noteq> i) (getCart JSON ls)"
  by (simp add: getCart_removeFromCart [OF assms])

theorem removeFromCart_removes_all_witness:
  "lossless ref_JSON \<and>
   getCart ref_JSON
     (removeFromCart ref_JSON ''b1''
        (saveCart ref_JSON
           [\<lparr>id' = ''b1'', title = ''Meditations'', price = 1000, image' = ''assets/m.jpg'',
              quantity = 2\<rparr>,
            \<lparr>id' = ''b2'', title = ''Walden'', price = 2500, image' = ''assets/w.jpg'',
              quantity = 1\<rparr>,
            \<lparr>id' = ''b1'', title = ''Meditations again'', price = 900, image' = ''assets/m2.jpg'',
              quantity = 4\<rparr>,
            \<lparr>id' = ''b3'', title = ''Ethics'', price = 1800, image' = ''assets/e.jpg'',
              quantity = 1\<rparr>] Map.empty)) =
     [\<lparr>id' = ''b2'', title = ''Walden'', price = 2500, image' = ''assets/w.jpg'',
        quantity = 1\<rparr>,
      \<lparr>id' = ''b3'', title = ''Ethics'', price = 1800, image' = ''assets/e.jpg'',
        quantity = 1\<rparr>]"
proof -
  note l = lossless_ref_JSON
  from l removeFromCart_removes_all [OF l, of "''b1''", THEN conjunct2] show ?thesis
    by (simp add: getCart_saveCart [OF l])
qed

end
